theory Spec2Isabelle
  imports Main
begin

section \<open>JavaScript values shared by the service and the client\<close>

text \<open>
  A value of type \<open>string | null | undefined\<close> is a \<open>string option\<close>; \<open>None\<close> stands for
  both \<open>null\<close> and \<open>undefined\<close>, which the code never tells apart. JavaScript's truthiness
  test on such a value (\<open>if (x)\<close>, \<open>!x\<close>, \<open>x || y\<close>) holds for non-empty strings only.
\<close>

definition truthy :: "string option \<Rightarrow> bool" where
  "truthy v = (case v of None \<Rightarrow> False | Some s \<Rightarrow> s \<noteq> [])"

text \<open>
  A thrown value: an \<open>Error\<close> object with its \<open>message\<close> and optional \<open>stack\<close>, or anything
  else (\<open>x instanceof Error\<close> is false).
\<close>

datatype thrown = ErrorObj string "string option" | NonError

text \<open>\<open>e instanceof Error ? e.message : dflt\<close>\<close>

fun message_or :: "thrown \<Rightarrow> string \<Rightarrow> string" where
  "message_or (ErrorObj m st) dflt = m"
| "message_or NonError dflt = dflt"

text \<open>\<open>e instanceof Error ? e.stack : undefined\<close>\<close>

fun stack_of :: "thrown \<Rightarrow> string option" where
  "stack_of (ErrorObj m st) = st"
| "stack_of NonError = None"

section \<open>The URL issuance service: \<open>GET\<close>\<close>

subsection \<open>Configuration, request and response\<close>

text \<open>\<open>process.env\<close>, restricted to the five variables the handler reads.\<close>

record env =
  GOOGLE_CLOUD_PROJECT_ID :: "string option"
  GOOGLE_CLOUD_BUCKET_NAME :: "string option"
  GOOGLE_CLOUD_KEY_FILE :: "string option"
  GOOGLE_CLOUD_CREDENTIALS :: "string option"
  GOOGLE_CLOUD_CDN_ENDPOINT :: "string option"

text \<open>
  The request is its decoded query string, the \<open>searchParams\<close> of \<open>new URL(request.url)\<close>, as
  the ordered list of its name/value pairs. \<open>request.url\<close> of a \<open>NextRequest\<close> is always an
  absolute URL, so this parse does not throw; \<open>searchParams.get\<close> returns the value of the
  first pair with the given name, or \<open>null\<close>.
\<close>

record request =
  searchParams :: "(string \<times> string) list"

definition searchParams_get :: "request \<Rightarrow> string \<Rightarrow> string option" where
  "searchParams_get req name = map_of (searchParams req) name"

text \<open>
  The JSON bodies the handler sends: \<open>{error, details?}\<close> or \<open>{signedUrl}\<close>. A \<open>details\<close>
  that is \<open>undefined\<close> is dropped by the serialiser. Every response carries the same
  \<open>Content-Type: application/json\<close> header; a response built without a status has status 200.
\<close>

datatype body = ErrorBody string "string option" | SignedUrlBody string

record response =
  status :: nat
  body :: body

definition json_error :: "nat \<Rightarrow> string \<Rightarrow> response" where
  "json_error st msg = \<lparr>status = st, body = ErrorBody msg None\<rparr>"

definition json_signedUrl :: "string \<Rightarrow> response" where
  "json_signedUrl u = \<lparr>status = 200, body = SignedUrlBody u\<rparr>"

subsection \<open>The world outside the handler\<close>

text \<open>
  The object with which \<open>new Storage\<close> is called. The parsed inline credentials are represented
  by the text they were parsed from.
\<close>

record storage_config =
  projectId :: "string option"
  keyFilename :: "string option"
  credentials :: "string option"

record sign_options =
  version :: string
  action :: string
  expires :: int

text \<open>
  Everything the handler calls that is not its own code is a parameter: the dynamic import of
  the storage package (\<open>Some t\<close>: it throws \<open>t\<close>), \<open>JSON.parse\<close> on the inline credentials
  (whether it succeeds), the \<open>Storage\<close> constructor, \<open>file.exists()\<close> and
  \<open>file.getSignedUrl(options)\<close> of the file at a bucket and key (\<open>Inl t\<close>: the call throws
  \<open>t\<close>), \<open>Date.now()\<close> in milliseconds, and \<open>new URL(s)\<close> with the \<open>pathname\<close> and \<open>search\<close>
  of its result.
\<close>

record world =
  importStorage :: "thrown option"
  jsonParses :: "string \<Rightarrow> bool"
  newStorage :: "storage_config \<Rightarrow> thrown option"
  fileExists :: "storage_config \<Rightarrow> string option \<Rightarrow> string \<Rightarrow> thrown + bool"
  getSignedUrl :: "storage_config \<Rightarrow> string option \<Rightarrow> string \<Rightarrow> sign_options \<Rightarrow> thrown + string"
  dateNow :: int
  newURL :: "string \<Rightarrow> thrown + (string \<times> string)"

text \<open>
  The calls the handler makes to that world, in the order it makes them, each with its
  arguments and, for the two calls to the object store, with what the call returned.
\<close>

datatype event =
    EvImport
  | EvJsonParse string
  | EvNewStorage storage_config
  | EvExists "string option" string "thrown + bool"
  | EvGetSignedUrl "string option" string sign_options "thrown + string"
  | EvNewURL string

subsection \<open>The handler\<close>

text \<open>
  The client configuration the handler builds: the project identifier, and the key file when
  one is set, otherwise the inline credentials when they are set.
\<close>

definition storageConfig :: "env \<Rightarrow> storage_config" where
  "storageConfig e =
     (if truthy (GOOGLE_CLOUD_KEY_FILE e)
      then \<lparr>projectId = GOOGLE_CLOUD_PROJECT_ID e,
            keyFilename = GOOGLE_CLOUD_KEY_FILE e, credentials = None\<rparr>
      else if truthy (GOOGLE_CLOUD_CREDENTIALS e)
      then \<lparr>projectId = GOOGLE_CLOUD_PROJECT_ID e,
            keyFilename = None, credentials = GOOGLE_CLOUD_CREDENTIALS e\<rparr>
      else \<lparr>projectId = GOOGLE_CLOUD_PROJECT_ID e, keyFilename = None, credentials = None\<rparr>)"

text \<open>\<open>const subdirectory = original ? "original" : "optimized"\<close> and the template for \<open>filePath\<close>.\<close>

definition subdirectory :: "bool \<Rightarrow> string" where
  "subdirectory original = (if original then ''original'' else ''optimized'')"

definition filePath :: "string \<Rightarrow> bool \<Rightarrow> string \<Rightarrow> string" where
  "filePath directory original filename =
     directory @ ''/'' @ subdirectory original @ ''/'' @ filename"

text \<open>The response of the \<open>catch (storageError)\<close> block.\<close>

definition storage_failed :: "thrown \<Rightarrow> response" where
  "storage_failed t =
     \<lparr>status = 500,
      body = ErrorBody (''Storage operation failed: '' @ message_or t ''Unknown storage error'')
               (stack_of t)\<rparr>"

text \<open>
  The inner \<open>try\<close> block on the file: existence check, signing, CDN rewrite. The result is
  the response together with the calls made.
\<close>

definition storage_ops :: "world \<Rightarrow> env \<Rightarrow> storage_config \<Rightarrow> string \<Rightarrow> response \<times> event list" where
  "storage_ops w e cfg path =
     (let bucketName = GOOGLE_CLOUD_BUCKET_NAME e;
          exists = fileExists w cfg bucketName path;
          ev1 = [EvExists bucketName path exists]
      in case exists of
           Inl t \<Rightarrow> (storage_failed t, ev1)
         | Inr False \<Rightarrow> (json_error 404 (''File not found: '' @ path), ev1)
         | Inr True \<Rightarrow>
            (let options = \<lparr>version = ''v4'', action = ''read'',
                            expires = dateNow w + 60 * 60 * 1000\<rparr>;
                 signed = getSignedUrl w cfg bucketName path options;
                 ev2 = ev1 @ [EvGetSignedUrl bucketName path options signed]
             in case signed of
                  Inl t \<Rightarrow> (storage_failed t, ev2)
                | Inr signedUrl \<Rightarrow>
                   (case GOOGLE_CLOUD_CDN_ENDPOINT e of
                      None \<Rightarrow> (json_signedUrl signedUrl, ev2)
                    | Some cdnEndpoint \<Rightarrow>
                       if cdnEndpoint = [] then (json_signedUrl signedUrl, ev2)
                       else (case newURL w signedUrl of
                               Inl t \<Rightarrow> (storage_failed t, ev2 @ [EvNewURL signedUrl])
                             | Inr (pathname, search) \<Rightarrow>
                                (json_signedUrl (cdnEndpoint @ pathname @ search),
                                 ev2 @ [EvNewURL signedUrl])))))"

text \<open>\<open>storage = new Storage(storageConfig)\<close>, inside the \<open>try\<close> whose \<open>catch (initError)\<close> answers 500.\<close>

definition construct :: "world \<Rightarrow> storage_config \<Rightarrow> event list \<Rightarrow> (response + storage_config) \<times> event list" where
  "construct w cfg evs =
     (case newStorage w cfg of
        Some t \<Rightarrow>
          (Inl (json_error 500 (''Failed to initialize Google Cloud Storage: ''
                                  @ message_or t ''Unknown error'')),
           evs @ [EvNewStorage cfg])
      | None \<Rightarrow> (Inr cfg, evs @ [EvNewStorage cfg]))"

text \<open>
  Client initialisation: the key file when one is set, otherwise the inline credentials, which
  are parsed first. \<open>Inl\<close> is the error response of the stage that failed.
\<close>

definition init_storage :: "world \<Rightarrow> env \<Rightarrow> (response + storage_config) \<times> event list" where
  "init_storage w e =
     (if truthy (GOOGLE_CLOUD_KEY_FILE e) then construct w (storageConfig e) []
      else (case GOOGLE_CLOUD_CREDENTIALS e of
              None \<Rightarrow> construct w (storageConfig e) []
            | Some c \<Rightarrow>
               if c = [] then construct w (storageConfig e) []
               else if jsonParses w c then construct w (storageConfig e) [EvJsonParse c]
               else (Inl (json_error 500 ''Invalid Google Cloud credentials format''),
                     [EvJsonParse c])))"

text \<open>
  A template literal \<open>`${v}`\<close> on a value that may be \<open>null\<close>. The handler interpolates
  \<open>directory\<close> and \<open>filename\<close> only after it has checked that they are non-empty strings.
\<close>

definition interpolate :: "string option \<Rightarrow> string" where
  "interpolate v = (case v of None \<Rightarrow> ''null'' | Some s \<Rightarrow> s)"

text \<open>
  The handler. Nothing outside the inner \<open>try\<close> blocks can throw in this model, so the
  outermost \<open>catch\<close> (``Unexpected error'') has no branch here.
\<close>

definition GET :: "world \<Rightarrow> env \<Rightarrow> request \<Rightarrow> response \<times> event list" where
  "GET w e req =
     (if \<not> truthy (GOOGLE_CLOUD_PROJECT_ID e)
      then (json_error 500 ''Google Cloud project ID not configured'', [])
      else if \<not> truthy (GOOGLE_CLOUD_BUCKET_NAME e)
      then (json_error 500 ''Google Cloud Storage bucket name not configured'', [])
      else if \<not> truthy (GOOGLE_CLOUD_KEY_FILE e) \<and> \<not> truthy (GOOGLE_CLOUD_CREDENTIALS e)
      then (json_error 500 ''Google Cloud credentials not configured'', [])
      else
        (let directory = searchParams_get req ''directory'';
             filename = searchParams_get req ''filename'';
             original = (searchParams_get req ''original'' = Some ''true'')
         in if \<not> truthy directory \<or> \<not> truthy filename
            then (json_error 400 ''Missing required parameters: directory and filename'', [])
            else (case importStorage w of
                    Some t \<Rightarrow>
                      (json_error 500 ''Google Cloud Storage package not available'', [EvImport])
                  | None \<Rightarrow>
                     (case init_storage w e of
                        (Inl r, evs) \<Rightarrow> (r, EvImport # evs)
                      | (Inr cfg, evs) \<Rightarrow>
                         (case storage_ops w e cfg
                                 (filePath (interpolate directory) original (interpolate filename))
                          of (r, evs') \<Rightarrow> (r, EvImport # evs @ evs'))))))"

section \<open>The gallery client: \<open>PhotoGallery\<close>\<close>

subsection \<open>Constants and state\<close>

definition IMAGE_FILENAMES :: "string list" where
  "IMAGE_FILENAMES = [''image1.jpg'', ''image2.jpg'', ''image3.jpg'', ''image4.jpg'', ''image5.jpg'']"

definition DIRECTORY_NAME :: string where
  "DIRECTORY_NAME = ''gallery''"

text \<open>\<open>xs[i]\<close> is \<open>undefined\<close> outside the list.\<close>

definition at_index :: "'a list \<Rightarrow> int \<Rightarrow> 'a option" where
  "at_index xs i = (if 0 \<le> i \<and> i < int (length xs) then Some (xs ! nat i) else None)"

text \<open>
  The component's eight state variables, and, beside them, \<open>requests\<close>: the URLs passed to
  \<open>fetch\<close> so far, oldest first. \<open>optimizedUrls\<close> is the \<open>Record<string, string>\<close>.
\<close>

record client =
  selectedImage :: "string option"
  currentIndex :: int
  optimizedUrls :: "string \<rightharpoonup> string"
  originalUrl :: "string option"
  loading :: bool
  originalLoading :: bool
  error :: "string option"
  errorDetails :: "string option"
  requests :: "string list"

text \<open>The arguments of the \<open>useState\<close> calls: the state of the first render.\<close>

definition initial :: client where
  "initial =
     \<lparr>selectedImage = at_index IMAGE_FILENAMES 0, currentIndex = 0, optimizedUrls = Map.empty,
      originalUrl = Some [], loading = True, originalLoading = False,
      error = None, errorDetails = None, requests = []\<rparr>"

subsection \<open>What \<open>fetch\<close> can answer\<close>

text \<open>
  A parsed JSON body, as far as the client reads it: the three properties \<open>signedUrl\<close>,
  \<open>error\<close> and \<open>details\<close>, each a string or missing. (Bodies whose properties are not strings
  are outside this model.)
\<close>

record json_body =
  j_signedUrl :: "string option"
  j_error :: "string option"
  j_details :: "string option"

text \<open>
  A response: its status, its \<open>content-type\<close> header, its text, and what parsing that text
  as JSON and reading a property of the result gives (\<open>Inl t\<close>: that throws \<open>t\<close>).
\<close>

record fetch_response =
  resp_status :: nat
  content_type :: "string option"
  resp_text :: string
  resp_json :: "thrown + json_body"

datatype fetch_outcome = Rejects thrown | Responds fetch_response

text \<open>The network: the answer to the \<open>n\<close>-th call of \<open>fetch\<close> (counted from 0), given its URL.\<close>

type_synonym network = "nat \<Rightarrow> string \<Rightarrow> fetch_outcome"

definition ok :: "fetch_response \<Rightarrow> bool" where
  "ok r = (200 \<le> resp_status r \<and> resp_status r \<le> 299)"

text \<open>\<open>s.includes(sub)\<close>\<close>

fun includes_str :: "string \<Rightarrow> string \<Rightarrow> bool" where
  "includes_str [] sub = (sub = [])"
| "includes_str (c # cs) sub = (take (length sub) (c # cs) = sub \<or> includes_str cs sub)"

text \<open>A non-negative number in a template literal: its decimal digits.\<close>

fun show_nat :: "nat \<Rightarrow> string" where
  "show_nat n =
     (if n < 10 then [''0123456789'' ! n]
      else show_nat (n div 10) @ [''0123456789'' ! (n mod 10)])"

text \<open>\<open>v || dflt\<close> on a string that may be missing.\<close>

definition or_else :: "string option \<Rightarrow> string \<Rightarrow> string" where
  "or_else v dflt = (case v of None \<Rightarrow> dflt | Some s \<Rightarrow> if s = [] then dflt else s)"

subsection \<open>\<open>fetchSignedUrl\<close>\<close>

text \<open>\<open>setError(msg); if (details) setErrorDetails(details)\<close>\<close>

definition report :: "string \<Rightarrow> string option \<Rightarrow> client \<Rightarrow> client" where
  "report msg details c =
     (if truthy details then c\<lparr>error := Some msg, errorDetails := details\<rparr>
      else c\<lparr>error := Some msg\<rparr>)"

definition signed_url_request :: "string \<Rightarrow> bool \<Rightarrow> string" where
  "signed_url_request filename original =
     ''/api/signed-url?directory='' @ DIRECTORY_NAME @ ''&filename='' @ filename
       @ ''&original='' @ (if original then ''true'' else ''false'')"

text \<open>
  A call of \<open>fetchSignedUrl\<close> runs in two synchronous stretches with \<open>await\<close>s between
  them, during which other code of the page can run. The first stretch clears the error state
  and calls \<open>fetch\<close>.
\<close>

definition fetch_begin :: "string \<Rightarrow> bool \<Rightarrow> client \<Rightarrow> client" where
  "fetch_begin filename original c =
     (let c1 = c\<lparr>error := None, errorDetails := None\<rparr>;
          url = signed_url_request filename original
      in c1\<lparr>requests := requests c1 @ [url]\<rparr>)"

text \<open>
  The second stretch runs once the outcome of the request is there (after the last \<open>await\<close>
  of the branch taken; nothing is written between the \<open>await\<close>s): it writes the error state
  and returns. The result is the returned string (\<open>None\<close>: \<open>undefined\<close>, when the body has
  no \<open>signedUrl\<close>) and the state after it.
\<close>

definition fetch_end :: "fetch_outcome \<Rightarrow> client \<Rightarrow> string option \<times> client" where
  "fetch_end outcome c2 =
     (case outcome of
        Rejects t \<Rightarrow> (Some [], c2\<lparr>error := Some (message_or t ''Unknown error occurred'')\<rparr>)
      | Responds r \<Rightarrow>
         if \<not> ok r then
           (case resp_json r of
              Inl t \<Rightarrow>
                (Some [], c2\<lparr>error := Some (''Server error: '' @ show_nat (resp_status r)
                                              @ '' - '' @ resp_text r)\<rparr>)
            | Inr errorJson \<Rightarrow>
                (Some [], report (or_else (j_error errorJson)
                                    (''Server error: '' @ show_nat (resp_status r)))
                            (j_details errorJson) c2))
         else if (case content_type r of None \<Rightarrow> True
                  | Some contentType \<Rightarrow>
                      contentType = [] \<or> \<not> includes_str contentType ''application/json'')
         then (Some [], c2\<lparr>error := Some ''Invalid server response format''\<rparr>)
         else (case resp_json r of
                 Inl t \<Rightarrow>
                   (Some [], c2\<lparr>error := Some (message_or t ''Unknown error occurred'')\<rparr>)
               | Inr data \<Rightarrow>
                   (case j_error data of
                      None \<Rightarrow> (j_signedUrl data, c2)
                    | Some err \<Rightarrow>
                        if err = [] then (j_signedUrl data, c2)
                        else (Some [], report err (j_details data) c2))))"

text \<open>
  A call during which nothing else runs: both stretches, one after the other, the outcome
  being the network's answer to this request.
\<close>

definition fetchSignedUrl :: "network \<Rightarrow> string \<Rightarrow> bool \<Rightarrow> client \<Rightarrow> string option \<times> client" where
  "fetchSignedUrl net filename original c =
     fetch_end (net (length (requests c)) (signed_url_request filename original))
       (fetch_begin filename original c)"




subsection \<open>The two effects\<close>

text \<open>
  The \<open>for\<close> loop of \<open>loadOptimizedImages\<close>. The \<open>error\<close> it tests is the constant of the
  render in which the effect's closure was created, not the state that \<open>setError\<close> updates,
  so it is a parameter here (\<open>captured\<close>) and the loop never changes it.
\<close>

fun load_loop :: "network \<Rightarrow> string option \<Rightarrow> string list \<Rightarrow> (string \<rightharpoonup> string) \<Rightarrow> client
                    \<Rightarrow> (string \<rightharpoonup> string) \<times> client" where
  "load_loop net captured [] urls c = (urls, c)"
| "load_loop net captured (filename # rest) urls c =
     (case fetchSignedUrl net filename False c of
        (url, c') \<Rightarrow>
          (let urls' = (case url of None \<Rightarrow> urls
                        | Some u \<Rightarrow> if u = [] then urls else urls(filename \<mapsto> u))
           in if truthy captured then (urls', c') else load_loop net captured rest urls' c'))"

definition loadOptimizedImages :: "network \<Rightarrow> string option \<Rightarrow> client \<Rightarrow> client" where
  "loadOptimizedImages net captured c =
     (case load_loop net captured IMAGE_FILENAMES Map.empty (c\<lparr>loading := True\<rparr>) of
        (urls, c') \<Rightarrow> c'\<lparr>optimizedUrls := urls, loading := False\<rparr>)"

text \<open>
  The first effect has no dependencies: it runs once, after the first render, whose \<open>error\<close>
  is the initial one.
\<close>

definition mount :: "network \<Rightarrow> client" where
  "mount net = loadOptimizedImages net (error initial) initial"


subsection \<open>Selection and navigation\<close>

definition handleImageSelect :: "string option \<Rightarrow> int \<Rightarrow> client \<Rightarrow> client" where
  "handleImageSelect filename index c = c\<lparr>selectedImage := filename, currentIndex := index\<rparr>"

text \<open>
  JavaScript's \<open>%\<close> on integers with a positive divisor: the result has the sign of the
  dividend.
\<close>

definition js_rem :: "int \<Rightarrow> int \<Rightarrow> int" where
  "js_rem a n = (if 0 \<le> a then a mod n else - ((- a) mod n))"

datatype direction = Prev | Next

text \<open>The index computed by \<open>navigateCarousel\<close> for a list of \<open>n\<close> entries.\<close>

definition newIndex :: "int \<Rightarrow> direction \<Rightarrow> int \<Rightarrow> int" where
  "newIndex n direction i =
     (case direction of
        Prev \<Rightarrow> js_rem (i - 1 + n) n
      | Next \<Rightarrow> js_rem (i + 1) n)"

definition navigateCarousel :: "direction \<Rightarrow> client \<Rightarrow> client" where
  "navigateCarousel direction c =
     (let i = newIndex (int (length IMAGE_FILENAMES)) direction (currentIndex c)
      in handleImageSelect (at_index IMAGE_FILENAMES i) i c)"

section \<open>A URL parser for the example worlds\<close>

text \<open>
  \<open>new URL(s)\<close> is platform code, and the handler takes it as a parameter (\<open>newURL\<close>). The
  example worlds below need one parser to run on; this one cuts a URL
  \<open>scheme://authority/path?query#fragment\<close> into its pieces without rewriting anything: the
  authority ends at the first \<open>/\<close>, \<open>?\<close> or \<open>#\<close>, the path at the first \<open>?\<close> or \<open>#\<close>, the
  query at the first \<open>#\<close>; an empty path reads \<open>/\<close>, and a query that is a lone \<open>?\<close> reads
  as the empty string. It gives what the platform's parser gives on URLs that are already in
  the form that parser serialises, as the example URLs are; it does not lower-case,
  percent-encode or remove dot segments as the platform's does. \<open>None\<close> is the \<open>TypeError\<close>
  of the constructor.
\<close>

definition is_delim :: "char \<Rightarrow> bool" where
  "is_delim c = (c = CHR ''/'' \<or> c = CHR ''?'' \<or> c = CHR ''#'')"

definition ends_path :: "char \<Rightarrow> bool" where
  "ends_path c = (c = CHR ''?'' \<or> c = CHR ''#'')"

definition after_scheme :: "string \<Rightarrow> string" where
  "after_scheme s = drop 3 (dropWhile (\<lambda>c. c \<noteq> CHR '':'') s)"

definition after_authority :: "string \<Rightarrow> string" where
  "after_authority s = dropWhile (\<lambda>c. \<not> is_delim c) (after_scheme s)"

definition url_split :: "string \<Rightarrow> (string \<times> string \<times> string) option" where
  "url_split s =
     (let scheme = takeWhile (\<lambda>c. c \<noteq> CHR '':'') s;
          authority = takeWhile (\<lambda>c. \<not> is_delim c) (after_scheme s);
          path = takeWhile (\<lambda>c. \<not> ends_path c) (after_authority s);
          query = takeWhile (\<lambda>c. c \<noteq> CHR ''#'')
                    (dropWhile (\<lambda>c. \<not> ends_path c) (after_authority s))
      in if scheme = [] \<or> take 3 (dropWhile (\<lambda>c. c \<noteq> CHR '':'') s) \<noteq> ''://''
            \<or> authority = []
         then None
         else Some (scheme @ ''://'' @ authority,
                    if path = [] then ''/'' else path,
                    if query = ''?'' then [] else query))"

definition standard_URL :: "string \<Rightarrow> thrown + (string \<times> string)" where
  "standard_URL s =
     (case url_split s of
        None \<Rightarrow> Inl (ErrorObj ''Invalid URL'' (Some ''TypeError: Invalid URL''))
      | Some (origin, pathname, search) \<Rightarrow> Inr (pathname, search))"

section \<open>Example inputs\<close>

definition example_env :: env where
  "example_env =
     \<lparr>GOOGLE_CLOUD_PROJECT_ID = Some ''demo-project'',
      GOOGLE_CLOUD_BUCKET_NAME = Some ''demo-bucket'',
      GOOGLE_CLOUD_KEY_FILE = Some ''key.json'',
      GOOGLE_CLOUD_CREDENTIALS = None,
      GOOGLE_CLOUD_CDN_ENDPOINT = None\<rparr>"

definition unconfigured_env :: env where
  "unconfigured_env =
     \<lparr>GOOGLE_CLOUD_PROJECT_ID = None, GOOGLE_CLOUD_BUCKET_NAME = None,
      GOOGLE_CLOUD_KEY_FILE = None, GOOGLE_CLOUD_CREDENTIALS = None,
      GOOGLE_CLOUD_CDN_ENDPOINT = None\<rparr>"

definition cdn_env :: env where
  "cdn_env = example_env\<lparr>GOOGLE_CLOUD_CDN_ENDPOINT := Some ''https://cdn.test''\<rparr>"


definition original_request :: request where
  "original_request =
     \<lparr>searchParams = [(''directory'', ''gallery''), (''filename'', ''a.jpg''),
                      (''original'', ''true'')]\<rparr>"


definition no_directory_request :: request where
  "no_directory_request = \<lparr>searchParams = [(''filename'', ''a.jpg'')]\<rparr>"

text \<open>
  A store that holds every object and signs every request with the same query string; one
  that holds nothing; one that holds every object but cannot sign.
\<close>

definition full_store :: world where
  "full_store =
     \<lparr>importStorage = None,
      jsonParses = (\<lambda>s. True),
      newStorage = (\<lambda>cfg. None),
      fileExists = (\<lambda>cfg bucket path. Inr True),
      getSignedUrl = (\<lambda>cfg bucket path options. Inr (''https://gcs.test/b/'' @ path @ ''?X=1'')),
      dateNow = 1700000000000,
      newURL = standard_URL\<rparr>"

definition empty_store :: world where
  "empty_store = full_store\<lparr>fileExists := (\<lambda>cfg bucket path. Inr False)\<rparr>"

definition unsigning_store :: world where
  "unsigning_store =
     full_store\<lparr>getSignedUrl := (\<lambda>cfg bucket path options. Inl (ErrorObj ''SigningError'' None))\<rparr>"

text \<open>
  Two networks. On the first, the first request is answered 500 with a JSON error and every
  later one 200 with a signed URL; on the second, every request is answered 500 with a JSON
  error that names the number of the request and carries the requested URL as detail.
\<close>

definition first_fails :: network where
  "first_fails n url =
     (if n = 0
      then Responds \<lparr>resp_status = 500, content_type = Some ''application/json'',
                      resp_text = ''{}'',
                      resp_json = Inr \<lparr>j_signedUrl = None, j_error = Some ''boom'',
                                        j_details = None\<rparr>\<rparr>
      else Responds \<lparr>resp_status = 200, content_type = Some ''application/json'',
                      resp_text = ''{}'',
                      resp_json = Inr \<lparr>j_signedUrl = Some (''https://gcs.test'' @ url),
                                        j_error = None, j_details = None\<rparr>\<rparr>)"







definition signed :: fetch_response where
  "signed =
     \<lparr>resp_status = 200, content_type = Some ''application/json'', resp_text = ''{}'',
      resp_json = Inr \<lparr>j_signedUrl = Some ''https://gcs.test/b/a.jpg?X=1'',
                        j_error = None, j_details = None\<rparr>\<rparr>"

section \<open>Auxiliary predicates\<close>

text \<open>An event that is neither an existence check nor a signing call.\<close>

definition quiet :: "event \<Rightarrow> bool" where
  "quiet ev = (case ev of EvExists b k r \<Rightarrow> False | EvGetSignedUrl b k opts r \<Rightarrow> False | _ \<Rightarrow> True)"

section \<open>Lemmas on the handler\<close>

lemma init_storage_Inl:
  "init_storage w e = (Inl r, evs) \<Longrightarrow> status r = 500"
  by (auto simp: init_storage_def construct_def json_error_def split: if_splits option.splits)

lemma storage_ops_cases:
  "storage_ops w e cfg path = (r, evs) \<Longrightarrow>
     (\<exists>t. r = storage_failed t
          \<and> evs = [EvExists (GOOGLE_CLOUD_BUCKET_NAME e) path (Inl t)])
   \<or> (r = json_error 404 (''File not found: '' @ path)
        \<and> evs = [EvExists (GOOGLE_CLOUD_BUCKET_NAME e) path (Inr False)])
   \<or> (\<exists>opts sg post.
        evs = EvExists (GOOGLE_CLOUD_BUCKET_NAME e) path (Inr True)
                # EvGetSignedUrl (GOOGLE_CLOUD_BUCKET_NAME e) path opts sg # post
        \<and> (post = [] \<or> (\<exists>u. post = [EvNewURL u]))
        \<and> (status r = 200 \<longrightarrow> (\<exists>su. sg = Inr su)))"
  by (auto simp: storage_ops_def Let_def storage_failed_def json_signedUrl_def
           split: sum.splits bool.splits option.splits if_splits prod.splits)

lemma GET_cases:
  assumes "GET w e req = (r, tr)"
  shows "(tr = [] \<and> (status r = 500 \<or> status r = 400))
       \<or> (tr = [EvImport] \<and> status r = 500)
       \<or> (\<exists>evs. init_storage w e = (Inl r, evs) \<and> status r = 500 \<and> tr = EvImport # evs)
       \<or> (\<exists>cfg evs evs' d f. init_storage w e = (Inr cfg, evs)
             \<and> searchParams_get req ''directory'' = Some d \<and> d \<noteq> []
             \<and> searchParams_get req ''filename'' = Some f \<and> f \<noteq> []
             \<and> storage_ops w e cfg
                  (filePath d (searchParams_get req ''original'' = Some ''true'') f) = (r, evs')
             \<and> tr = EvImport # evs @ evs')"
  using assms
proof -
  have "(tr = [] \<and> (status r = 500 \<or> status r = 400))
       \<or> (tr = [EvImport] \<and> status r = 500)
       \<or> (\<exists>evs. init_storage w e = (Inl r, evs) \<and> tr = EvImport # evs)
       \<or> (\<exists>cfg evs evs' d f. init_storage w e = (Inr cfg, evs)
             \<and> searchParams_get req ''directory'' = Some d \<and> d \<noteq> []
             \<and> searchParams_get req ''filename'' = Some f \<and> f \<noteq> []
             \<and> storage_ops w e cfg
                  (filePath d (searchParams_get req ''original'' = Some ''true'') f) = (r, evs')
             \<and> tr = EvImport # evs @ evs')"
    using assms
    by (auto simp: GET_def Let_def json_error_def truthy_def interpolate_def
           split: if_splits option.splits prod.splits sum.splits)
  then show ?thesis using init_storage_Inl by blast
qed

lemma init_storage_quiet: "list_all quiet (snd (init_storage w e))"
  by (auto simp: init_storage_def construct_def quiet_def split: if_splits option.splits)

lemma quiet_simps [simp]:
  "\<not> quiet (EvExists b k r)" "\<not> quiet (EvGetSignedUrl b k opts sg)"
  "quiet EvImport" "quiet (EvJsonParse c)" "quiet (EvNewStorage cfg)" "quiet (EvNewURL u)"
  by (simp_all add: quiet_def)

lemma quiet_not_mem:
  "list_all quiet evs \<Longrightarrow> EvExists b k r \<notin> set evs \<and> EvGetSignedUrl b k opts sg \<notin> set evs"
  by (auto simp: list_all_iff)

text \<open>
  The four shapes of a run: no call to the store at all; an existence check that threw; an
  existence check that returned false; an existence check that returned true, followed by the
  signing call.
\<close>

lemma GET_trace:
  assumes "GET w e req = (r, tr)"
  obtains (silent) "list_all quiet tr" "status r \<noteq> 200" "status r \<noteq> 404"
    | (threw) pre d f t where
        "searchParams_get req ''directory'' = Some d" "searchParams_get req ''filename'' = Some f"
        "list_all quiet pre"
        "tr = pre @ [EvExists (GOOGLE_CLOUD_BUCKET_NAME e)
                       (filePath d (searchParams_get req ''original'' = Some ''true'') f) (Inl t)]"
        "r = storage_failed t"
    | (absent) pre d f where
        "searchParams_get req ''directory'' = Some d" "searchParams_get req ''filename'' = Some f"
        "list_all quiet pre"
        "tr = pre @ [EvExists (GOOGLE_CLOUD_BUCKET_NAME e)
                       (filePath d (searchParams_get req ''original'' = Some ''true'') f)
                       (Inr False)]"
        "r = json_error 404
               (''File not found: '' @ filePath d (searchParams_get req ''original'' = Some ''true'') f)"
    | (signed) pre d f opts sg post where
        "searchParams_get req ''directory'' = Some d" "searchParams_get req ''filename'' = Some f"
        "list_all quiet pre" "list_all quiet post"
        "tr = pre @ EvExists (GOOGLE_CLOUD_BUCKET_NAME e)
                      (filePath d (searchParams_get req ''original'' = Some ''true'') f) (Inr True)
                  # EvGetSignedUrl (GOOGLE_CLOUD_BUCKET_NAME e)
                      (filePath d (searchParams_get req ''original'' = Some ''true'') f) opts sg
                  # post"
        "status r = 200 \<longrightarrow> (\<exists>su. sg = Inr su)"
proof -
  from GET_cases [OF assms]
  consider (none) "tr = []" "status r = 500 \<or> status r = 400"
    | (imp) "tr = [EvImport]" "status r = 500"
    | (init) evs where "init_storage w e = (Inl r, evs)" "status r = 500" "tr = EvImport # evs"
    | (ops) cfg evs evs' d f where "init_storage w e = (Inr cfg, evs)"
        "searchParams_get req ''directory'' = Some d" "searchParams_get req ''filename'' = Some f"
        "storage_ops w e cfg (filePath d (searchParams_get req ''original'' = Some ''true'') f) = (r, evs')"
        "tr = EvImport # evs @ evs'"
    by blast
  then show thesis
  proof cases
    case none
    then show thesis by (intro silent) auto
  next
    case imp
    then show thesis by (intro silent) auto
  next
    case init
    have "list_all quiet evs"
      using init_storage_quiet [of w e] init(1) by simp
    then show thesis using init by (intro silent) auto
  next
    case ops
    have q: "list_all quiet (EvImport # evs)"
      using init_storage_quiet [of w e] ops(1) by simp
    let ?path = "filePath d (searchParams_get req ''original'' = Some ''true'') f"
    let ?b = "GOOGLE_CLOUD_BUCKET_NAME e"
    from storage_ops_cases [OF ops(4)]
    consider (a) t where "r = storage_failed t" "evs' = [EvExists ?b ?path (Inl t)]"
      | (b) "r = json_error 404 (''File not found: '' @ ?path)"
            "evs' = [EvExists ?b ?path (Inr False)]"
      | (c) opts sg post where
            "evs' = EvExists ?b ?path (Inr True) # EvGetSignedUrl ?b ?path opts sg # post"
            "post = [] \<or> (\<exists>u. post = [EvNewURL u])" "status r = 200 \<longrightarrow> (\<exists>su. sg = Inr su)"
      by blast
    then show thesis
    proof cases
      case a
      show thesis
        by (rule threw [OF ops(2,3) q, of t]) (simp_all add: ops(5) a)
    next
      case b
      show thesis
        by (rule absent [OF ops(2,3) q]) (simp_all add: ops(5) b)
    next
      case c
      have "list_all quiet post" using c(2) by auto
      then show thesis
        by (rule signed [OF ops(2,3) q _ _ c(3), of post opts]) (simp add: ops(5) c(1))
    qed
  qed
qed

section \<open>The service: configuration and parameter checks\<close>

text \<open>
  C6: whenever the project identifier, the bucket name, or both the key-file path and the
  inline credentials are missing (unset or empty), the handler answers 500 with one of the
  three configuration messages; it makes no call at all (no import, no client, no store), and
  its result does not depend on the request or on the world, so nothing of the request is read.
\<close>

theorem missing_configuration_fails_fast:
  assumes "\<not> truthy (GOOGLE_CLOUD_PROJECT_ID e) \<or> \<not> truthy (GOOGLE_CLOUD_BUCKET_NAME e)
           \<or> (\<not> truthy (GOOGLE_CLOUD_KEY_FILE e) \<and> \<not> truthy (GOOGLE_CLOUD_CREDENTIALS e))"
  shows "status (fst (GET w e req)) = 500
       \<and> body (fst (GET w e req)) \<in>
            {ErrorBody ''Google Cloud project ID not configured'' None,
             ErrorBody ''Google Cloud Storage bucket name not configured'' None,
             ErrorBody ''Google Cloud credentials not configured'' None}
       \<and> snd (GET w e req) = []
       \<and> GET w' e req' = GET w e req"
  using assms by (auto simp: GET_def json_error_def)

theorem missing_configuration_fails_fast_witness:
  "\<not> truthy (GOOGLE_CLOUD_PROJECT_ID unconfigured_env)
   \<and> fst (GET full_store unconfigured_env original_request)
       = \<lparr>status = 500, body = ErrorBody ''Google Cloud project ID not configured'' None\<rparr>
   \<and> snd (GET full_store unconfigured_env original_request) = []
   \<and> GET empty_store unconfigured_env no_directory_request
       = GET full_store unconfigured_env original_request"
  using missing_configuration_fails_fast
          [of unconfigured_env full_store original_request empty_store no_directory_request]
  by (simp add: unconfigured_env_def truthy_def GET_def json_error_def)

text \<open>
  C1 as stated fails: a request without \<open>directory\<close> is answered 500, not 400, when the
  configuration is missing, because the configuration is checked first.
\<close>

theorem missing_parameter_unconfigured_counterexample:
  "\<not> truthy (searchParams_get no_directory_request ''directory'')
   \<and> status (fst (GET full_store unconfigured_env no_directory_request)) = 500
   \<and> status (fst (GET full_store unconfigured_env no_directory_request)) \<noteq> 400"
  by (simp add: unconfigured_env_def no_directory_request_def truthy_def GET_def json_error_def
                searchParams_get_def)

text \<open>
  C1, amended: when the three required configuration values are present, every request whose
  \<open>directory\<close> or \<open>filename\<close> is absent or empty is answered 400 with the body
  \<open>{error}\<close>, whatever the other parameters and the world are, and no call is made.
\<close>

theorem missing_parameter_400:
  assumes "truthy (GOOGLE_CLOUD_PROJECT_ID e)" and "truthy (GOOGLE_CLOUD_BUCKET_NAME e)"
      and "truthy (GOOGLE_CLOUD_KEY_FILE e) \<or> truthy (GOOGLE_CLOUD_CREDENTIALS e)"
      and "\<not> truthy (searchParams_get req ''directory'')
           \<or> \<not> truthy (searchParams_get req ''filename'')"
  shows "fst (GET w e req)
           = \<lparr>status = 400,
              body = ErrorBody ''Missing required parameters: directory and filename'' None\<rparr>
         \<and> snd (GET w e req) = []"
  using assms by (auto simp: GET_def Let_def json_error_def)

theorem missing_parameter_400_witness:
  "truthy (GOOGLE_CLOUD_PROJECT_ID example_env) \<and> truthy (GOOGLE_CLOUD_BUCKET_NAME example_env)
   \<and> truthy (GOOGLE_CLOUD_KEY_FILE example_env)
   \<and> \<not> truthy (searchParams_get no_directory_request ''directory'')
   \<and> status (fst (GET full_store example_env no_directory_request)) = 400"
  using missing_parameter_400 [of example_env no_directory_request full_store]
  by (simp add: example_env_def no_directory_request_def truthy_def searchParams_get_def)

section \<open>The service: object key, existence check and signing\<close>

lemma GET_exists_event:
  assumes "EvExists b k res \<in> set (snd (GET w e req))"
  shows "\<exists>d f. searchParams_get req ''directory'' = Some d
             \<and> searchParams_get req ''filename'' = Some f
             \<and> k = filePath d (searchParams_get req ''original'' = Some ''true'') f"
proof -
  obtain r tr where g: "GET w e req = (r, tr)" by (cases "GET w e req")
  have m: "EvExists b k res \<in> set tr" using assms g by simp
  from g show ?thesis
  proof (cases rule: GET_trace)
    case silent
    then show ?thesis using m by (auto dest: quiet_not_mem)
  next
    case threw
    then show ?thesis using m by (auto dest: quiet_not_mem)
  next
    case absent
    then show ?thesis using m by (auto dest: quiet_not_mem)
  next
    case signed
    then show ?thesis using m by (auto dest: quiet_not_mem)
  qed
qed




text \<open>
  C4: whenever the existence check of a run has returned false, the response is 404 and its
  error text is \<open>File not found: \<close> followed by the checked key, which is
  \<open>{directory}/original/{filename}\<close> when the \<open>original\<close> parameter is \<open>true\<close> and
  \<open>{directory}/optimized/{filename}\<close> otherwise.
\<close>

theorem absent_object_404:
  assumes "EvExists b k (Inr False) \<in> set (snd (GET w e req))"
  shows "fst (GET w e req) = \<lparr>status = 404, body = ErrorBody (''File not found: '' @ k) None\<rparr>
       \<and> (\<exists>d f. searchParams_get req ''directory'' = Some d
               \<and> searchParams_get req ''filename'' = Some f
               \<and> k = d @ ''/'' @ (if searchParams_get req ''original'' = Some ''true''
                                   then ''original'' else ''optimized'') @ ''/'' @ f)"
proof -
  obtain r tr where g: "GET w e req = (r, tr)" by (cases "GET w e req")
  have m: "EvExists b k (Inr False) \<in> set tr" using assms g by simp
  from g have "r = json_error 404 (''File not found: '' @ k)"
  proof (cases rule: GET_trace)
    case silent
    then show ?thesis using m by (auto dest: quiet_not_mem)
  next
    case threw
    then show ?thesis using m by (auto dest: quiet_not_mem)
  next
    case absent
    then show ?thesis using m by (auto dest: quiet_not_mem)
  next
    case signed
    then show ?thesis using m by (auto dest: quiet_not_mem)
  qed
  then show ?thesis
    using g GET_exists_event [OF assms] by (simp add: json_error_def filePath_def subdirectory_def)
qed

lemma GET_empty_store:
  "GET empty_store example_env original_request =
     (\<lparr>status = 404, body = ErrorBody ''File not found: gallery/original/a.jpg'' None\<rparr>,
      [EvImport,
       EvNewStorage \<lparr>projectId = Some ''demo-project'', keyFilename = Some ''key.json'',
                      credentials = None\<rparr>,
       EvExists (Some ''demo-bucket'') ''gallery/original/a.jpg'' (Inr False)])"
  by (simp add: GET_def empty_store_def full_store_def example_env_def original_request_def
      truthy_def searchParams_get_def init_storage_def construct_def storageConfig_def
      storage_ops_def Let_def filePath_def subdirectory_def interpolate_def json_error_def)

theorem absent_object_404_witness:
  "EvExists (Some ''demo-bucket'') ''gallery/original/a.jpg'' (Inr False)
     \<in> set (snd (GET empty_store example_env original_request))
   \<and> fst (GET empty_store example_env original_request)
       = \<lparr>status = 404, body = ErrorBody ''File not found: gallery/original/a.jpg'' None\<rparr>"
proof -
  have m: "EvExists (Some ''demo-bucket'') ''gallery/original/a.jpg'' (Inr False)
             \<in> set (snd (GET empty_store example_env original_request))"
    by (simp add: GET_empty_store)
  show ?thesis
    using absent_object_404 [OF m] m by simp
qed

text \<open>
  C3: in every run of the handler, (1) a 200 response comes from a run in which the existence
  check on a key returned true and the very next call signed that same key successfully, with
  no signing call before it; (2) every signing call is immediately preceded by an existence
  check on the same bucket and key that returned true; (3) a run whose existence check returned
  false contains no signing call.
\<close>

theorem signing_only_after_existence:
  "(status (fst (GET w e req)) = 200 \<longrightarrow>
      (\<exists>pre b k opts su post.
          snd (GET w e req)
            = pre @ EvExists b k (Inr True) # EvGetSignedUrl b k opts (Inr su) # post
        \<and> list_all quiet pre \<and> list_all quiet post))
   \<and> (\<forall>b k opts sg. EvGetSignedUrl b k opts sg \<in> set (snd (GET w e req)) \<longrightarrow>
        (\<exists>pre post.
            snd (GET w e req) = pre @ EvExists b k (Inr True) # EvGetSignedUrl b k opts sg # post
          \<and> list_all quiet pre \<and> list_all quiet post))
   \<and> (\<forall>b k. EvExists b k (Inr False) \<in> set (snd (GET w e req)) \<longrightarrow>
        (\<forall>b' k' opts sg. EvGetSignedUrl b' k' opts sg \<notin> set (snd (GET w e req))))"
proof -
  obtain r tr where g: "GET w e req = (r, tr)" by (cases "GET w e req")
  from g have "(status r = 200 \<longrightarrow>
      (\<exists>pre b k opts su post.
          tr = pre @ EvExists b k (Inr True) # EvGetSignedUrl b k opts (Inr su) # post
        \<and> list_all quiet pre \<and> list_all quiet post))
   \<and> (\<forall>b k opts sg. EvGetSignedUrl b k opts sg \<in> set tr \<longrightarrow>
        (\<exists>pre post. tr = pre @ EvExists b k (Inr True) # EvGetSignedUrl b k opts sg # post
          \<and> list_all quiet pre \<and> list_all quiet post))
   \<and> (\<forall>b k. EvExists b k (Inr False) \<in> set tr \<longrightarrow>
        (\<forall>b' k' opts sg. EvGetSignedUrl b' k' opts sg \<notin> set tr))"
  proof (cases rule: GET_trace)
    case silent
    then show ?thesis by (auto dest: quiet_not_mem)
  next
    case threw
    then show ?thesis by (auto dest: quiet_not_mem simp: storage_failed_def)
  next
    case absent
    then show ?thesis by (auto dest: quiet_not_mem simp: json_error_def)
  next
    case (signed pre d f opts sg post)
    let ?b = "GOOGLE_CLOUD_BUCKET_NAME e"
    let ?k = "filePath d (searchParams_get req ''original'' = Some ''true'') f"
    have tr: "tr = pre @ EvExists ?b ?k (Inr True) # EvGetSignedUrl ?b ?k opts sg # post"
      by (rule signed(5))
    have a: "status r = 200 \<longrightarrow>
      (\<exists>pre b k opts su post.
          tr = pre @ EvExists b k (Inr True) # EvGetSignedUrl b k opts (Inr su) # post
        \<and> list_all quiet pre \<and> list_all quiet post)"
      using tr signed(3,4,6) by blast
    have b: "\<And>b' k' opts' sg'. EvGetSignedUrl b' k' opts' sg' \<in> set tr \<Longrightarrow>
                b' = ?b \<and> k' = ?k \<and> opts' = opts \<and> sg' = sg"
      unfolding tr using signed(3,4) by (auto dest: quiet_not_mem)
    have c: "\<And>b' k'. EvExists b' k' (Inr False) \<notin> set tr"
      unfolding tr using signed(3,4) by (auto dest: quiet_not_mem)
    have b2: "\<forall>b' k' opts' sg'. EvGetSignedUrl b' k' opts' sg' \<in> set tr \<longrightarrow>
        (\<exists>pre post. tr = pre @ EvExists b' k' (Inr True) # EvGetSignedUrl b' k' opts' sg' # post
          \<and> list_all quiet pre \<and> list_all quiet post)"
      using b tr signed(3,4) by metis
    show ?thesis using a b2 c by simp
  qed
  then show ?thesis using g by simp
qed

lemma GET_original:
  "GET full_store example_env original_request =
     (\<lparr>status = 200, body = SignedUrlBody ''https://gcs.test/b/gallery/original/a.jpg?X=1''\<rparr>,
      [EvImport,
       EvNewStorage \<lparr>projectId = Some ''demo-project'', keyFilename = Some ''key.json'',
                      credentials = None\<rparr>,
       EvExists (Some ''demo-bucket'') ''gallery/original/a.jpg'' (Inr True),
       EvGetSignedUrl (Some ''demo-bucket'') ''gallery/original/a.jpg''
         \<lparr>version = ''v4'', action = ''read'', expires = 1700003600000\<rparr>
         (Inr ''https://gcs.test/b/gallery/original/a.jpg?X=1'')])"
  by (simp add: GET_def full_store_def example_env_def original_request_def truthy_def
      searchParams_get_def init_storage_def construct_def storageConfig_def storage_ops_def
      Let_def filePath_def subdirectory_def interpolate_def json_signedUrl_def)

theorem signing_only_after_existence_witness:
  "status (fst (GET full_store example_env original_request)) = 200
   \<and> EvGetSignedUrl (Some ''demo-bucket'') ''gallery/original/a.jpg''
         \<lparr>version = ''v4'', action = ''read'', expires = 1700003600000\<rparr>
         (Inr ''https://gcs.test/b/gallery/original/a.jpg?X=1'')
       \<in> set (snd (GET full_store example_env original_request))
   \<and> (\<exists>pre post.
          snd (GET full_store example_env original_request)
            = pre @ EvExists (Some ''demo-bucket'') ''gallery/original/a.jpg'' (Inr True)
                # EvGetSignedUrl (Some ''demo-bucket'') ''gallery/original/a.jpg''
                    \<lparr>version = ''v4'', action = ''read'', expires = 1700003600000\<rparr>
                    (Inr ''https://gcs.test/b/gallery/original/a.jpg?X=1'') # post
        \<and> list_all quiet pre \<and> list_all quiet post)
   \<and> EvExists (Some ''demo-bucket'') ''gallery/original/a.jpg'' (Inr False)
       \<in> set (snd (GET empty_store example_env original_request))
   \<and> (\<forall>b k opts sg.
         EvGetSignedUrl b k opts sg \<notin> set (snd (GET empty_store example_env original_request)))"
proof -
  have s: "status (fst (GET full_store example_env original_request)) = 200"
    by (simp add: GET_original)
  have m: "EvGetSignedUrl (Some ''demo-bucket'') ''gallery/original/a.jpg''
         \<lparr>version = ''v4'', action = ''read'', expires = 1700003600000\<rparr>
         (Inr ''https://gcs.test/b/gallery/original/a.jpg?X=1'')
       \<in> set (snd (GET full_store example_env original_request))"
    by (simp add: GET_original)
  have a: "EvExists (Some ''demo-bucket'') ''gallery/original/a.jpg'' (Inr False)
       \<in> set (snd (GET empty_store example_env original_request))"
    by (simp add: GET_empty_store)
  show ?thesis
    using signing_only_after_existence [of full_store example_env original_request]
          signing_only_after_existence [of empty_store example_env original_request]
          s m a
    by blast
qed

section \<open>The service: the issued URL\<close>

text \<open>
  C2 as stated fails: with the configuration and both parameters present and the object in
  the store, the signing call can still throw, and the response is then 500.
\<close>

theorem existing_object_not_signed_counterexample:
  "truthy (GOOGLE_CLOUD_PROJECT_ID example_env) \<and> truthy (GOOGLE_CLOUD_BUCKET_NAME example_env)
   \<and> truthy (GOOGLE_CLOUD_KEY_FILE example_env)
   \<and> truthy (searchParams_get original_request ''directory'')
   \<and> truthy (searchParams_get original_request ''filename'')
   \<and> fileExists unsigning_store (storageConfig example_env)
         (GOOGLE_CLOUD_BUCKET_NAME example_env) ''gallery/original/a.jpg'' = Inr True
   \<and> EvExists (Some ''demo-bucket'') ''gallery/original/a.jpg'' (Inr True)
       \<in> set (snd (GET unsigning_store example_env original_request))
   \<and> fst (GET unsigning_store example_env original_request)
       = \<lparr>status = 500, body = ErrorBody ''Storage operation failed: SigningError'' None\<rparr>"
  by (simp add: GET_def unsigning_store_def full_store_def example_env_def original_request_def
      truthy_def searchParams_get_def init_storage_def construct_def storageConfig_def
      storage_ops_def Let_def filePath_def subdirectory_def interpolate_def storage_failed_def)

text \<open>
  C2, amended: when the three required configuration values and both parameters are present,
  the storage package loads, the inline credentials (if they are the ones used) parse, the client
  is constructed, the existence check on the computed key returns true, the signing call with
  the options \<open>version: v4\<close>, \<open>action: read\<close>, \<open>expires: Date.now() + 3600000\<close> (one hour,
  in milliseconds) returns a URL and, if a CDN target is configured, that URL parses, then the
  response is 200 with the body \<open>{signedUrl}\<close>, where the URL is the one the store returned,
  or, with a CDN target, the target followed by the pathname and search of that URL.
\<close>

theorem signed_url_issued:
  assumes "truthy (GOOGLE_CLOUD_PROJECT_ID e)" and "truthy (GOOGLE_CLOUD_BUCKET_NAME e)"
      and "truthy (GOOGLE_CLOUD_KEY_FILE e) \<or> truthy (GOOGLE_CLOUD_CREDENTIALS e)"
      and "searchParams_get req ''directory'' = Some d" and "d \<noteq> []"
      and "searchParams_get req ''filename'' = Some f" and "f \<noteq> []"
      and "importStorage w = None"
      and "truthy (GOOGLE_CLOUD_KEY_FILE e)
           \<or> (\<forall>c. GOOGLE_CLOUD_CREDENTIALS e = Some c \<longrightarrow> jsonParses w c)"
      and "newStorage w (storageConfig e) = None"
      and "k = d @ ''/'' @ (if searchParams_get req ''original'' = Some ''true''
                           then ''original'' else ''optimized'') @ ''/'' @ f"
      and "opts = \<lparr>version = ''v4'', action = ''read'', expires = dateNow w + 3600000\<rparr>"
      and "fileExists w (storageConfig e) (GOOGLE_CLOUD_BUCKET_NAME e) k = Inr True"
      and "getSignedUrl w (storageConfig e) (GOOGLE_CLOUD_BUCKET_NAME e) k opts = Inr su"
      and "truthy (GOOGLE_CLOUD_CDN_ENDPOINT e) \<longrightarrow> newURL w su = Inr (p, s)"
  shows "fst (GET w e req)
           = \<lparr>status = 200,
              body = SignedUrlBody (case GOOGLE_CLOUD_CDN_ENDPOINT e of
                                      None \<Rightarrow> su
                                    | Some c \<Rightarrow> if c = [] then su else c @ p @ s)\<rparr>
       \<and> EvGetSignedUrl (GOOGLE_CLOUD_BUCKET_NAME e) k opts (Inr su) \<in> set (snd (GET w e req))"
proof -
  have init: "\<exists>evs. init_storage w e = (Inr (storageConfig e), evs)"
    using assms(3,9,10) by (auto simp: init_storage_def construct_def truthy_def split: option.splits)
  then obtain evs where init: "init_storage w e = (Inr (storageConfig e), evs)" by blast
  have path: "filePath d (searchParams_get req ''original'' = Some ''true'') f = k"
    using assms(11) by (simp add: filePath_def subdirectory_def)
  have ops: "fst (storage_ops w e (storageConfig e) k)
               = \<lparr>status = 200,
              body = SignedUrlBody (case GOOGLE_CLOUD_CDN_ENDPOINT e of
                                      None \<Rightarrow> su
                                    | Some c \<Rightarrow> if c = [] then su else c @ p @ s)\<rparr>
           \<and> EvGetSignedUrl (GOOGLE_CLOUD_BUCKET_NAME e) k opts (Inr su)
               \<in> set (snd (storage_ops w e (storageConfig e) k))"
    using assms(12-15)
    by (auto simp: storage_ops_def Let_def json_signedUrl_def truthy_def split: option.splits)
  have "GET w e req = (fst (storage_ops w e (storageConfig e) k),
                       EvImport # evs @ snd (storage_ops w e (storageConfig e) k))"
    using assms(1-8) init path
    by (simp add: GET_def Let_def truthy_def interpolate_def split: prod.splits)
  then show ?thesis using ops by simp
qed

lemma standard_URL_example:
  "standard_URL ''https://gcs.test/b/gallery/original/a.jpg?X=1''
     = Inr (''/b/gallery/original/a.jpg'', ''?X=1'')"
  by (simp add: standard_URL_def url_split_def after_scheme_def after_authority_def
                is_delim_def ends_path_def)

theorem signed_url_issued_witness:
  "fst (GET full_store cdn_env original_request)
     = \<lparr>status = 200,
        body = SignedUrlBody ''https://cdn.test/b/gallery/original/a.jpg?X=1''\<rparr>
   \<and> EvGetSignedUrl (Some ''demo-bucket'') ''gallery/original/a.jpg''
         \<lparr>version = ''v4'', action = ''read'', expires = 1700003600000\<rparr>
         (Inr ''https://gcs.test/b/gallery/original/a.jpg?X=1'')
       \<in> set (snd (GET full_store cdn_env original_request))"
  using signed_url_issued
          [of cdn_env original_request "''gallery''" "''a.jpg''" full_store
              "''gallery/original/a.jpg''"
              "\<lparr>version = ''v4'', action = ''read'', expires = 1700003600000\<rparr>"
              "''https://gcs.test/b/gallery/original/a.jpg?X=1''"
              "''/b/gallery/original/a.jpg''" "''?X=1''"]
  by (simp add: cdn_env_def example_env_def original_request_def full_store_def truthy_def
                searchParams_get_def standard_URL_example)






section \<open>The client: carousel navigation\<close>

text \<open>
  C7: for a list of \<open>n \<ge> 1\<close> entries and a current index \<open>i\<close> with \<open>0 \<le> i < n\<close>, ``next''
  computes \<open>(i + 1) mod n\<close> and ``previous'' computes \<open>(i - 1 + n) mod n\<close>; next from the
  last index gives 0 and previous from 0 gives the last index. \<open>navigateCarousel\<close> sets the
  current index to that value for the list of the source, and selects the entry at it.
\<close>

theorem navigation_wraps:
  assumes "1 \<le> n" and "0 \<le> i" and "i < n"
  shows "newIndex n Next i = (i + 1) mod n
       \<and> newIndex n Prev i = (i - 1 + n) mod n
       \<and> newIndex n Next (n - 1) = 0
       \<and> newIndex n Prev 0 = n - 1
       \<and> (n = int (length IMAGE_FILENAMES) \<and> currentIndex c = i \<longrightarrow>
            currentIndex (navigateCarousel Next c) = (i + 1) mod n
          \<and> currentIndex (navigateCarousel Prev c) = (i - 1 + n) mod n
          \<and> selectedImage (navigateCarousel Next c)
              = Some (IMAGE_FILENAMES ! nat ((i + 1) mod n))
          \<and> selectedImage (navigateCarousel Prev c)
              = Some (IMAGE_FILENAMES ! nat ((i - 1 + n) mod n)))"
proof -
  have a: "newIndex n Next i = (i + 1) mod n" "newIndex n Prev i = (i - 1 + n) mod n"
    using assms by (simp_all add: newIndex_def js_rem_def)
  have b: "newIndex n Next (n - 1) = 0" "newIndex n Prev 0 = n - 1"
    using assms by (simp_all add: newIndex_def js_rem_def zmod_minus1)
  have r: "0 \<le> (i + 1) mod n" "(i + 1) mod n < n" "0 \<le> (i - 1 + n) mod n" "(i - 1 + n) mod n < n"
    using assms by simp_all
  have c: "n = int (length IMAGE_FILENAMES) \<and> currentIndex c = i \<longrightarrow>
            currentIndex (navigateCarousel Next c) = (i + 1) mod n
          \<and> currentIndex (navigateCarousel Prev c) = (i - 1 + n) mod n
          \<and> selectedImage (navigateCarousel Next c)
              = Some (IMAGE_FILENAMES ! nat ((i + 1) mod n))
          \<and> selectedImage (navigateCarousel Prev c)
              = Some (IMAGE_FILENAMES ! nat ((i - 1 + n) mod n))"
  proof (intro impI, elim conjE)
    assume n: "n = int (length IMAGE_FILENAMES)" and i: "currentIndex c = i"
    have nx: "navigateCarousel Next c
                = handleImageSelect (at_index IMAGE_FILENAMES ((i + 1) mod n)) ((i + 1) mod n) c"
      unfolding navigateCarousel_def Let_def n [symmetric] i a ..
    have pv: "navigateCarousel Prev c
                = handleImageSelect (at_index IMAGE_FILENAMES ((i - 1 + n) mod n))
                    ((i - 1 + n) mod n) c"
      unfolding navigateCarousel_def Let_def n [symmetric] i a ..
    have ax: "at_index IMAGE_FILENAMES ((i + 1) mod n)
                = Some (IMAGE_FILENAMES ! nat ((i + 1) mod n))"
      using r(1,2) unfolding at_index_def n [symmetric] by simp
    have ap: "at_index IMAGE_FILENAMES ((i - 1 + n) mod n)
                = Some (IMAGE_FILENAMES ! nat ((i - 1 + n) mod n))"
      using r(3,4) unfolding at_index_def n [symmetric] by simp
    show "currentIndex (navigateCarousel Next c) = (i + 1) mod n
          \<and> currentIndex (navigateCarousel Prev c) = (i - 1 + n) mod n
          \<and> selectedImage (navigateCarousel Next c)
              = Some (IMAGE_FILENAMES ! nat ((i + 1) mod n))
          \<and> selectedImage (navigateCarousel Prev c)
              = Some (IMAGE_FILENAMES ! nat ((i - 1 + n) mod n))"
      unfolding nx pv ax ap by (simp add: handleImageSelect_def)
  qed
  show ?thesis using a b c by blast
qed

theorem navigation_wraps_witness:
  "currentIndex (navigateCarousel Next (initial\<lparr>currentIndex := 4\<rparr>)) = 0
   \<and> selectedImage (navigateCarousel Next (initial\<lparr>currentIndex := 4\<rparr>)) = Some ''image1.jpg''
   \<and> currentIndex (navigateCarousel Prev (initial\<lparr>currentIndex := 4\<rparr>)) = 3
   \<and> newIndex 5 Prev 0 = 4"
  using navigation_wraps [of 5 4 "initial\<lparr>currentIndex := 4\<rparr>"]
  by (simp add: IMAGE_FILENAMES_def)

section \<open>The client: fetching\<close>

lemma report_fields [simp]:
  "requests (report msg details c) = requests c"
  "error (report msg details c) = Some msg"
  "errorDetails (report msg details c) = (if truthy details then details else errorDetails c)"
  by (simp_all add: report_def)

lemma fetch_begin_fields [simp]:
  "error (fetch_begin filename original c) = None"
  "errorDetails (fetch_begin filename original c) = None"
  "requests (fetch_begin filename original c) = requests c @ [signed_url_request filename original]"
  by (simp_all add: fetch_begin_def Let_def)

lemma fetch_end_requests [simp]:
  "requests (snd (fetch_end outcome c)) = requests c"
  by (simp add: fetch_end_def split: fetch_outcome.splits sum.splits option.splits)

lemma fetchSignedUrl_requests:
  "requests (snd (fetchSignedUrl net filename original c))
     = requests c @ [signed_url_request filename original]"
  by (simp add: fetchSignedUrl_def)
















section \<open>The client: the thumbnail loop\<close>

lemma load_loop_requests:
  "\<not> truthy captured \<Longrightarrow>
     requests (snd (load_loop net captured filenames urls c))
       = requests c @ map (\<lambda>filename. signed_url_request filename False) filenames"
proof (induction filenames arbitrary: urls c)
  case Nil
  then show ?case by simp
next
  case (Cons filename rest)
  obtain url c' where f: "fetchSignedUrl net filename False c = (url, c')"
    by (cases "fetchSignedUrl net filename False c")
  have r: "requests c' = requests c @ [signed_url_request filename False]"
    using fetchSignedUrl_requests [of net filename False c] f by simp
  show ?case
    using Cons.prems f r Cons.IH by (simp add: Let_def)
qed

text \<open>
  The loop started on mount tests the \<open>error\<close> of the first render, which is \<open>null\<close>: it
  never breaks, whatever the network answers.
\<close>

lemma mount_requests:
  "requests (mount net) = map (\<lambda>filename. signed_url_request filename False) IMAGE_FILENAMES"
proof -
  have "\<not> truthy (error initial)" by (simp add: initial_def truthy_def)
  then have "requests (snd (load_loop net (error initial) IMAGE_FILENAMES Map.empty
                              (initial\<lparr>loading := True\<rparr>)))
               = requests (initial\<lparr>loading := True\<rparr>)
                   @ map (\<lambda>filename. signed_url_request filename False) IMAGE_FILENAMES"
    by (rule load_loop_requests)
  then show ?thesis
    by (cases "load_loop net (error initial) IMAGE_FILENAMES Map.empty
                 (initial\<lparr>loading := True\<rparr>)")
       (simp add: mount_def loadOptimizedImages_def initial_def)
qed

text \<open>
  C8 on the code: on a network where the first thumbnail request fails (500 with a JSON
  error) and the others succeed, all five requests are issued, the slots of the four remaining
  entries are filled, and no error is left on display.
\<close>

theorem first_failure_does_not_stop_the_loop:
  "first_fails 0 (signed_url_request ''image1.jpg'' False)
     = Responds \<lparr>resp_status = 500, content_type = Some ''application/json'',
                  resp_text = ''{}'',
                  resp_json = Inr \<lparr>j_signedUrl = None, j_error = Some ''boom'',
                                    j_details = None\<rparr>\<rparr>
   \<and> requests (mount first_fails)
       = [''/api/signed-url?directory=gallery&filename=image1.jpg&original=false'',
          ''/api/signed-url?directory=gallery&filename=image2.jpg&original=false'',
          ''/api/signed-url?directory=gallery&filename=image3.jpg&original=false'',
          ''/api/signed-url?directory=gallery&filename=image4.jpg&original=false'',
          ''/api/signed-url?directory=gallery&filename=image5.jpg&original=false'']
   \<and> map (optimizedUrls (mount first_fails)) IMAGE_FILENAMES
       = [None,
          Some ''https://gcs.test/api/signed-url?directory=gallery&filename=image2.jpg&original=false'',
          Some ''https://gcs.test/api/signed-url?directory=gallery&filename=image3.jpg&original=false'',
          Some ''https://gcs.test/api/signed-url?directory=gallery&filename=image4.jpg&original=false'',
          Some ''https://gcs.test/api/signed-url?directory=gallery&filename=image5.jpg&original=false'']
   \<and> error (mount first_fails) = None"
  by (simp add: mount_def loadOptimizedImages_def initial_def at_index_def IMAGE_FILENAMES_def
      fetchSignedUrl_def fetch_begin_def fetch_end_def Let_def first_fails_def ok_def or_else_def report_def truthy_def
      signed_url_request_def DIRECTORY_NAME_def)

end
